theory Spec2Isabelle
  imports Main "HOL-Library.Sublist"
begin

section \<open>Few-shot classification helpers (Generator/classification/helpers.py)\<close>

text \<open>
  A shallow embedding of the module \<^verbatim>\<open>helpers.py\<close>. Python's \<^verbatim>\<open>str\<close> is modelled by
  \<^typ>\<open>string\<close> holding the UTF-8 bytes of the text: the encoding is injective, so
  equality of texts is equality of byte lists, and a test for an ASCII substring has the
  same answer on the bytes as on the code points. Exceptions are values of the type
  \<open>error\<close>; a function that may raise returns \<open>error + 'a\<close>, with \<open>Inl\<close> the exception.
\<close>

subsection \<open>Exceptions\<close>

datatype error =
    AssertionError
  | NameError
  | KeyError
  | TypeError
  | FileNotFoundError
  | AttributeError
  | IndexError
  | UnboundLocalError

subsection \<open>Text constants\<close>

text \<open>
  The two characters of the source outside ASCII, as their UTF-8 bytes: U+0120, a
  unicode escape in the source and the byte-level BPE marker of a leading space, and
  U+2581, the SentencePiece marker of a leading space.
\<close>

definition u0120 :: string where
  "u0120 = [CHR 0xC4, CHR 0xA0]"

definition u2581 :: string where
  "u2581 = [CHR 0xE2, CHR 0x96, CHR 0x81]"

subsection \<open>\<^verbatim>\<open>get_dataset_verbalizers\<close>\<close>

text \<open>
  The local variable \<^verbatim>\<open>verbalizers\<close> is assigned and then overwritten by three
  independent \<^verbatim>\<open>if\<close> statements, in the order of the source. When neither branch of the
  outer conditional is taken the variable is unbound at the \<^verbatim>\<open>return\<close>.
\<close>

definition get_dataset_verbalizers :: "string \<Rightarrow> string \<Rightarrow> error + string list" where
  "get_dataset_verbalizers dataset task_lm =
     (if dataset \<in> set [''CoLA'', ''yelp'', ''agnews'', ''ReCoRD'', ''QuAC''] then
        (let verbalizers = [u0120 @ ''terrible'', u0120 @ ''great''];
             verbalizers = (if task_lm = ''bert-large-cased''
                            then [''terrible'', ''great''] else verbalizers);
             verbalizers = (if task_lm \<in> set [''llama-2-7b'', ''llama-2-13b'']
                            then [u2581 @ ''terrible'', u2581 @ ''great''] else verbalizers);
             verbalizers = (if task_lm \<in> set [''gpt4'', ''gpt3.5'']
                            then [u0120 @ ''terrible'', u0120 @ ''great''] else verbalizers)
         in Inr verbalizers)
      else if dataset = ''agnews'' then
        Inr [''World'', ''Sports'', ''Business'', ''Tech'']
      else Inl UnboundLocalError)"

subsection \<open>\<^verbatim>\<open>PromptedClassificationDataset\<close>\<close>

text \<open>
  The object holds the two lists given to \<^verbatim>\<open>__init__\<close>, which asserts that they have the
  same length. The element types are left open: the annotations say \<^verbatim>\<open>List[str]\<close>, the
  lists hold whatever the data frame's columns hold.
\<close>

record ('a, 'b) PromptedClassificationDataset =
  self_source_texts :: "'a list"
  self_class_labels :: "'b list"

definition PromptedClassificationDataset_init ::
  "'a list \<Rightarrow> 'b list \<Rightarrow> error + ('a, 'b) PromptedClassificationDataset" where
  "PromptedClassificationDataset_init source_texts class_labels =
     (if length source_texts = length class_labels
      then Inr \<lparr>self_source_texts = source_texts, self_class_labels = class_labels\<rparr>
      else Inl AssertionError)"

definition PromptedClassificationDataset_len ::
  "('a, 'b) PromptedClassificationDataset \<Rightarrow> int" where
  "PromptedClassificationDataset_len self = int (length (self_source_texts self))"

text \<open>
  Python's \<^verbatim>\<open>xs[idx]\<close> for an integer index: a negative index counts from the end, an
  index out of range raises \<^verbatim>\<open>IndexError\<close>.
\<close>

definition list_getitem :: "'a list \<Rightarrow> int \<Rightarrow> error + 'a" where
  "list_getitem xs idx =
     (let n = int (length xs);
          j = (if idx < 0 then idx + n else idx)
      in if 0 \<le> j \<and> j < n then Inr (xs ! nat j) else Inl IndexError)"

text \<open>The dictionary built by \<^verbatim>\<open>__getitem__\<close> has exactly two keys, one field each.\<close>

record ('a, 'b) item =
  item_source_texts :: 'a
  item_class_labels :: 'b

definition PromptedClassificationDataset_getitem ::
  "('a, 'b) PromptedClassificationDataset \<Rightarrow> int \<Rightarrow> error + ('a, 'b) item" where
  "PromptedClassificationDataset_getitem self idx =
     (case list_getitem (self_source_texts self) idx of
        Inl e \<Rightarrow> Inl e
      | Inr s \<Rightarrow>
          (case list_getitem (self_class_labels self) idx of
             Inl e \<Rightarrow> Inl e
           | Inr c \<Rightarrow> Inr \<lparr>item_source_texts = s, item_class_labels = c\<rparr>))"

subsection \<open>The module's global names\<close>

text \<open>
  A global name is resolved when the function body runs. The names below are the ones the
  module binds (its imports, classes and functions). An object is either a dictionary
  from seeds to texts, the only kind the loader subscripts, or something else.
\<close>

datatype pyobject = Dict "int option \<Rightarrow> string option" | Object

definition helpers_names :: "string list" where
  "helpers_names =
     [''dataclass'', ''np'', ''pd'', ''os'', ''Dataset'', ''AutoTokenizer'',
      ''Optional'', ''Tuple'', ''List'', ''PromptedClassificationReward'',
      ''PromptedClassificationDataset'', ''make_few_shot_classification_dataset'',
      ''load_few_shot_classification_dataset'', ''get_dataset_verbalizers'',
      ''FewShotClassificationDatasetConfig'', ''make_prompted_classification_reward'',
      ''PromptedClassificationRewardConfig'']"

definition helpers_globals :: "string \<Rightarrow> pyobject option" where
  "helpers_globals = map_of (map (\<lambda>n. (n, Object)) helpers_names)"

definition load_global :: "(string \<Rightarrow> pyobject option) \<Rightarrow> string \<Rightarrow> error + pyobject" where
  "load_global genv name = (case genv name of None \<Rightarrow> Inl NameError | Some v \<Rightarrow> Inr v)"

definition subscript :: "pyobject \<Rightarrow> int option \<Rightarrow> error + string" where
  "subscript obj key =
     (case obj of
        Dict d \<Rightarrow> (case d key of None \<Rightarrow> Inl KeyError | Some v \<Rightarrow> Inr v)
      | Object \<Rightarrow> Inl TypeError)"

subsection \<open>Paths and formatting\<close>

text \<open>Decimal text of an integer, as an f-string formats it.\<close>

function str_nat :: "nat \<Rightarrow> string" where
  "str_nat n =
     (if n < 10 then [char_of (48 + n)]
      else str_nat (n div 10) @ [char_of (48 + n mod 10)])"
  by pat_completeness auto
termination
  by (relation "measure id") auto

definition str_int :: "int \<Rightarrow> string" where
  "str_int i = (if i < 0 then ''-'' @ str_nat (nat (- i)) else str_nat (nat i))"

text \<open>\<^verbatim>\<open>os.path.join\<close> of two components, on a POSIX system.\<close>

definition os_path_join :: "string \<Rightarrow> string \<Rightarrow> string" where
  "os_path_join a b =
     (if prefix ''/'' b then b
      else if a = [] \<or> suffix ''/'' a then a @ b
      else a @ ''/'' @ b)"

subsection \<open>Data frames and the file system\<close>

text \<open>
  What \<^verbatim>\<open>pd.read_csv\<close> yields: a number of rows and named columns over the same row
  index. The file system maps a path to the frame parsed from the file there.
\<close>

record 'c dataframe =
  nrows :: nat
  columns :: "string \<Rightarrow> (nat \<Rightarrow> 'c) option"

definition read_csv :: "(string \<Rightarrow> 'c dataframe option) \<Rightarrow> string \<Rightarrow> error + 'c dataframe" where
  "read_csv fs path = (case fs path of None \<Rightarrow> Inl FileNotFoundError | Some df \<Rightarrow> Inr df)"

text \<open>\<^verbatim>\<open>df.name.tolist()\<close>: the column's values in row order.\<close>

definition column_tolist :: "'c dataframe \<Rightarrow> string \<Rightarrow> error + 'c list" where
  "column_tolist df name =
     (case columns df name of
        None \<Rightarrow> Inl AttributeError
      | Some col \<Rightarrow> Inr (map col [0..<nrows df]))"

subsection \<open>\<^verbatim>\<open>load_few_shot_classification_dataset\<close>\<close>

text \<open>The statements after \<^verbatim>\<open>read_csv\<close>, on the frame read.\<close>

definition load_frame ::
  "'c dataframe \<Rightarrow> string \<Rightarrow> string \<Rightarrow>
   error + 'c list \<times> 'c list \<times> int \<times> string list \<times> string option" where
  "load_frame df dataset task_lm =
     (case (if columns df ''text'' \<noteq> None then column_tolist df ''text''
            else column_tolist df ''sentence'') of
        Inl e \<Rightarrow> Inl e
      | Inr source_texts \<Rightarrow>
          (case column_tolist df ''label'' of
             Inl e \<Rightarrow> Inl e
           | Inr class_labels \<Rightarrow>
               (case get_dataset_verbalizers dataset task_lm of
                  Inl e \<Rightarrow> Inl e
                | Inr verbalizers \<Rightarrow>
                    (let num_classes = int (length verbalizers);
                         template = None;
                         template =
                           (if dataset = ''agnews'' \<and> task_lm = ''deberta-base''
                              then Some ''[MASK] {clean_prompt} {sentence}''
                            else if dataset = ''agnews'' \<and> \<not> sublist ''gpt'' task_lm
                              then Some ''<mask> {clean_prompt} {sentence}''
                            else template)
                     in Inr (source_texts, class_labels, num_classes, verbalizers,
                             template)))))"

text \<open>
  The loader returns its outcome together with the paths it has passed to
  \<^verbatim>\<open>read_csv\<close>, in order: the empty list means that no file was touched.
\<close>

definition load_few_shot_classification_dataset ::
  "(string \<Rightarrow> pyobject option) \<Rightarrow> (string \<Rightarrow> 'c dataframe option) \<Rightarrow>
   string \<Rightarrow> int option \<Rightarrow> string \<Rightarrow> string \<Rightarrow> int \<Rightarrow> string \<Rightarrow>
   (error + 'c list \<times> 'c list \<times> int \<times> string list \<times> string option) \<times> string list" where
  "load_few_shot_classification_dataset genv fs dataset dataset_seed split base_path
       num_shots task_lm =
     (if dataset \<notin> set [''CoLA'', ''yelp'', ''agnews'', ''ReCoRD'', ''QuAC'']
        then (Inl AssertionError, [])
      else if split \<notin> set [''train'', ''dev'', ''test'']
        then (Inl AssertionError, [])
      else if num_shots \<notin> set [16]
        then (Inl AssertionError, [])
      else
        (case load_global genv ''seed_dict'' of
           Inl e \<Rightarrow> (Inl e, [])
         | Inr sd \<Rightarrow>
             (case subscript sd dataset_seed of
                Inl e \<Rightarrow> (Inl e, [])
              | Inr seed_path \<Rightarrow>
                  (let filepath = str_int num_shots @ ''-shot/'' @ dataset @ ''/''
                                    @ seed_path @ ''/'' @ split @ ''.tsv'';
                       full_filepath = os_path_join base_path filepath
                   in (case read_csv fs full_filepath of
                         Inl e \<Rightarrow> Inl e
                       | Inr df \<Rightarrow> load_frame df dataset task_lm,
                       [full_filepath])))))"

subsection \<open>\<^verbatim>\<open>make_few_shot_classification_dataset\<close>\<close>

text \<open>
  The configuration object, with the fields the two \<^verbatim>\<open>make_\<close> functions and the two
  configuration classes name. The two coefficients are only passed on, so their type is
  left open.
\<close>

record 'f DictConfig =
  cfg_dataset :: string
  cfg_dataset_seed :: "int option"
  cfg_base_path :: string
  cfg_num_shots :: int
  cfg_task_lm :: string
  cfg_is_mask_lm :: "bool option"
  cfg_compute_zscore :: bool
  cfg_incorrect_coeff :: 'f
  cfg_correct_coeff :: 'f
  cfg_clean_prompt :: "string option"
  cfg_target_label :: "int option"

text \<open>The call of the loader in the body of the loop, for one split.\<close>

abbreviation load_split ::
  "(string \<Rightarrow> pyobject option) \<Rightarrow> (string \<Rightarrow> 'c dataframe option) \<Rightarrow> 'f DictConfig \<Rightarrow>
   string \<Rightarrow>
   (error + 'c list \<times> 'c list \<times> int \<times> string list \<times> string option) \<times> string list" where
  "load_split genv fs config split \<equiv>
     load_few_shot_classification_dataset genv fs (cfg_dataset config)
       (cfg_dataset_seed config) split (cfg_base_path config) (cfg_num_shots config)
       (cfg_task_lm config)"

text \<open>
  The \<^verbatim>\<open>for\<close> loop over the splits. Its state is \<^verbatim>\<open>data_dict\<close> and the three locals
  \<^verbatim>\<open>num_classes\<close>, \<^verbatim>\<open>verbalizers\<close>, \<^verbatim>\<open>template\<close>, unbound before the first iteration.
\<close>

fun make_loop ::
  "(string \<Rightarrow> pyobject option) \<Rightarrow> (string \<Rightarrow> 'c dataframe option) \<Rightarrow> 'f DictConfig \<Rightarrow>
   string list \<Rightarrow>
   (string \<Rightarrow> ('c, 'c) PromptedClassificationDataset option) \<Rightarrow>
   (int \<times> string list \<times> string option) option \<Rightarrow>
   (error + (string \<Rightarrow> ('c, 'c) PromptedClassificationDataset option)
            \<times> (int \<times> string list \<times> string option) option) \<times> string list" where
  "make_loop genv fs config [] data_dict locals = (Inr (data_dict, locals), [])"
| "make_loop genv fs config (split # splits) data_dict locals =
     (case load_few_shot_classification_dataset genv fs (cfg_dataset config)
             (cfg_dataset_seed config) split (cfg_base_path config)
             (cfg_num_shots config) (cfg_task_lm config) of
        (Inl e, reads) \<Rightarrow> (Inl e, reads)
      | (Inr (source_texts, class_labels, num_classes, verbalizers, template), reads) \<Rightarrow>
          (case PromptedClassificationDataset_init source_texts class_labels of
             Inl e \<Rightarrow> (Inl e, reads)
           | Inr fsc_dataset \<Rightarrow>
               (case make_loop genv fs config splits (data_dict(split \<mapsto> fsc_dataset))
                       (Some (num_classes, verbalizers, template)) of
                  (r, reads') \<Rightarrow> (r, reads @ reads'))))"

definition make_few_shot_classification_dataset ::
  "(string \<Rightarrow> pyobject option) \<Rightarrow> (string \<Rightarrow> 'c dataframe option) \<Rightarrow> 'f DictConfig \<Rightarrow>
   (error + ('c, 'c) PromptedClassificationDataset
            \<times> ('c, 'c) PromptedClassificationDataset
            \<times> ('c, 'c) PromptedClassificationDataset
            \<times> int \<times> string list \<times> string option) \<times> string list" where
  "make_few_shot_classification_dataset genv fs config =
     (case make_loop genv fs config [''train'', ''dev'', ''test''] Map.empty None of
        (Inl e, reads) \<Rightarrow> (Inl e, reads)
      | (Inr (data_dict, locals), reads) \<Rightarrow>
          (case (data_dict ''train'', data_dict ''dev'', data_dict ''test'') of
             (Some train, Some dev, Some test) \<Rightarrow>
               (case locals of
                  None \<Rightarrow> (Inl UnboundLocalError, reads)
                | Some (num_classes, verbalizers, template) \<Rightarrow>
                    (Inr (train, dev, test, num_classes, verbalizers, template), reads))
           | _ \<Rightarrow> (Inl KeyError, reads)))"

subsection \<open>\<^verbatim>\<open>make_prompted_classification_reward\<close>\<close>

text \<open>
  The class \<^verbatim>\<open>PromptedClassificationReward\<close> is imported from another module; its
  constructor is a parameter of the model.
\<close>

definition make_prompted_classification_reward ::
  "(string \<Rightarrow> bool option \<Rightarrow> bool \<Rightarrow> 'f \<Rightarrow> 'f \<Rightarrow> int \<Rightarrow> string list \<Rightarrow> string option \<Rightarrow> 'r) \<Rightarrow>
   int \<Rightarrow> string list \<Rightarrow> string option \<Rightarrow> 'f DictConfig \<Rightarrow> 'r" where
  "make_prompted_classification_reward PromptedClassificationReward
       num_classes verbalizers template config =
     PromptedClassificationReward (cfg_task_lm config) (cfg_is_mask_lm config)
       (cfg_compute_zscore config) (cfg_incorrect_coeff config)
       (cfg_correct_coeff config) num_classes verbalizers template"

subsection \<open>A sample environment\<close>

text \<open>
  Concrete data on which the theorems below are instantiated: a seed table as the loader
  expects it under the name \<^verbatim>\<open>seed_dict\<close>, the module's globals extended by it, two
  small frames and a file system holding them.
\<close>

definition sample_seed_dict :: "int option \<Rightarrow> string option" where
  "sample_seed_dict = [Some 0 \<mapsto> ''16-100'', Some 1 \<mapsto> ''16-13'']"

definition sample_globals :: "string \<Rightarrow> pyobject option" where
  "sample_globals = helpers_globals(''seed_dict'' \<mapsto> Dict sample_seed_dict)"

definition sample_frame :: "string dataframe" where
  "sample_frame =
     \<lparr>nrows = 2,
      columns = [''sentence'' \<mapsto> (\<lambda>i. if i = 0 then ''good film'' else ''dull film''),
                 ''label'' \<mapsto> (\<lambda>i. if i = 0 then ''1'' else ''0'')]\<rparr>"

definition sample_config :: "int DictConfig" where
  "sample_config =
     \<lparr>cfg_dataset = ''agnews'', cfg_dataset_seed = Some 0, cfg_base_path = ''./data'',
      cfg_num_shots = 16, cfg_task_lm = ''roberta-large'', cfg_is_mask_lm = None,
      cfg_compute_zscore = True, cfg_incorrect_coeff = 180, cfg_correct_coeff = 200,
      cfg_clean_prompt = None, cfg_target_label = None\<rparr>"

definition sample_frame_text :: "string dataframe" where
  "sample_frame_text =
     \<lparr>nrows = 1,
      columns = [''text'' \<mapsto> (\<lambda>i. ''fine food''),
                 ''sentence'' \<mapsto> (\<lambda>i. ''unused''),
                 ''label'' \<mapsto> (\<lambda>i. ''1'')]\<rparr>"

definition sample_fs :: "string \<Rightarrow> string dataframe option" where
  "sample_fs =
     [''./data/16-shot/agnews/16-100/train.tsv'' \<mapsto> sample_frame,
      ''./data/16-shot/agnews/16-100/dev.tsv'' \<mapsto> sample_frame,
      ''./data/16-shot/agnews/16-100/test.tsv'' \<mapsto> sample_frame,
      ''./data/16-shot/yelp/16-13/test.tsv'' \<mapsto> sample_frame_text]"

section \<open>Verified properties\<close>

subsection \<open>Auxiliary facts\<close>

declare str_nat.simps [simp del]

lemma str_int_16: "str_int 16 = ''16''"
  by code_simp

lemma seed_dict_unbound: "helpers_globals ''seed_dict'' = None"
  by (simp add: helpers_globals_def helpers_names_def)

lemma verbalizers_cases:
  assumes "get_dataset_verbalizers dataset task_lm = Inr vs"
  shows "vs = [''terrible'', ''great'']
       \<or> vs = [u2581 @ ''terrible'', u2581 @ ''great'']
       \<or> vs = [u0120 @ ''terrible'', u0120 @ ''great'']"
  using assms
  by (auto simp: get_dataset_verbalizers_def Let_def split: if_splits)

lemma load_accepted:
  assumes "dataset \<in> {''CoLA'', ''yelp'', ''agnews'', ''ReCoRD'', ''QuAC''}"
      and "split \<in> {''train'', ''dev'', ''test''}"
      and "num_shots = 16"
  shows "load_few_shot_classification_dataset genv fs dataset dataset_seed split base_path
           num_shots task_lm =
         (case load_global genv ''seed_dict'' of
           Inl e \<Rightarrow> (Inl e, [])
         | Inr sd \<Rightarrow>
             (case subscript sd dataset_seed of
                Inl e \<Rightarrow> (Inl e, [])
              | Inr seed_path \<Rightarrow>
                  (case read_csv fs (os_path_join base_path (''16-shot/'' @ dataset @ ''/''
                                    @ seed_path @ ''/'' @ split @ ''.tsv'')) of
                         Inl e \<Rightarrow> Inl e
                       | Inr df \<Rightarrow> load_frame df dataset task_lm,
                       [os_path_join base_path (''16-shot/'' @ dataset @ ''/''
                                    @ seed_path @ ''/'' @ split @ ''.tsv'')])))"
proof -
  have a: "\<not> dataset \<notin> set [''CoLA'', ''yelp'', ''agnews'', ''ReCoRD'', ''QuAC'']"
    using assms(1) by simp
  have b: "\<not> split \<notin> set [''train'', ''dev'', ''test'']"
    using assms(2) by simp
  have c: "\<not> num_shots \<notin> set [16]"
    using assms(3) by simp
  show ?thesis
    unfolding load_few_shot_classification_dataset_def if_not_P [OF a] if_not_P [OF b]
      if_not_P [OF c] Let_def
    by (simp add: assms(3) str_int_16 split: sum.splits)
qed

lemma load_Inr_frame:
  assumes "load_few_shot_classification_dataset genv fs dataset dataset_seed split base_path
             num_shots task_lm = (Inr r, reads)"
  shows "dataset \<in> {''CoLA'', ''yelp'', ''agnews'', ''ReCoRD'', ''QuAC''}
       \<and> split \<in> {''train'', ''dev'', ''test''} \<and> num_shots = 16
       \<and> (\<exists>sd seed_path df.
             genv ''seed_dict'' = Some (Dict sd) \<and> sd dataset_seed = Some seed_path
           \<and> reads = [os_path_join base_path (''16-shot/'' @ dataset @ ''/'' @ seed_path
                          @ ''/'' @ split @ ''.tsv'')]
           \<and> fs (os_path_join base_path (''16-shot/'' @ dataset @ ''/'' @ seed_path
                          @ ''/'' @ split @ ''.tsv'')) = Some df
           \<and> load_frame df dataset task_lm = Inr r)"
proof -
  have acc: "dataset \<in> {''CoLA'', ''yelp'', ''agnews'', ''ReCoRD'', ''QuAC''}
       \<and> split \<in> {''train'', ''dev'', ''test''} \<and> num_shots = 16"
    using assms
    by (simp add: load_few_shot_classification_dataset_def split: if_splits)
  then have "load_few_shot_classification_dataset genv fs dataset dataset_seed split base_path
           num_shots task_lm =
         (case load_global genv ''seed_dict'' of
           Inl e \<Rightarrow> (Inl e, [])
         | Inr sd \<Rightarrow>
             (case subscript sd dataset_seed of
                Inl e \<Rightarrow> (Inl e, [])
              | Inr seed_path \<Rightarrow>
                  (case read_csv fs (os_path_join base_path (''16-shot/'' @ dataset @ ''/''
                                    @ seed_path @ ''/'' @ split @ ''.tsv'')) of
                         Inl e \<Rightarrow> Inl e
                       | Inr df \<Rightarrow> load_frame df dataset task_lm,
                       [os_path_join base_path (''16-shot/'' @ dataset @ ''/''
                                    @ seed_path @ ''/'' @ split @ ''.tsv'')])))"
    by (intro load_accepted) simp_all
  with assms have "\<exists>sd seed_path df.
             genv ''seed_dict'' = Some (Dict sd) \<and> sd dataset_seed = Some seed_path
           \<and> reads = [os_path_join base_path (''16-shot/'' @ dataset @ ''/'' @ seed_path
                          @ ''/'' @ split @ ''.tsv'')]
           \<and> fs (os_path_join base_path (''16-shot/'' @ dataset @ ''/'' @ seed_path
                          @ ''/'' @ split @ ''.tsv'')) = Some df
           \<and> load_frame df dataset task_lm = Inr r"
    by (auto simp: load_global_def subscript_def read_csv_def
             split: sum.splits option.splits pyobject.splits)
  with acc show ?thesis by blast
qed

lemma load_frame_Inr:
  assumes "load_frame df dataset task_lm = Inr (st, cl, nc, vb, tm)"
  shows "(if columns df ''text'' \<noteq> None then column_tolist df ''text''
          else column_tolist df ''sentence'') = Inr st"
    and "column_tolist df ''label'' = Inr cl"
    and "get_dataset_verbalizers dataset task_lm = Inr vb"
    and "nc = int (length vb)"
    and "tm = (if dataset = ''agnews'' \<and> task_lm = ''deberta-base''
                 then Some ''[MASK] {clean_prompt} {sentence}''
               else if dataset = ''agnews'' \<and> \<not> sublist ''gpt'' task_lm
                 then Some ''<mask> {clean_prompt} {sentence}''
               else None)"
  using assms
  by (auto simp: load_frame_def Let_def split: sum.splits if_splits)

lemma load_frame_no_AssertionError: "load_frame df dataset task_lm \<noteq> Inl AssertionError"
  by (auto simp: load_frame_def column_tolist_def get_dataset_verbalizers_def Let_def
           split: sum.splits option.splits if_splits)

lemmas sample_simps =
  load_accepted load_global_def sample_globals_def subscript_def
  sample_seed_dict_def os_path_join_def read_csv_def sample_fs_def load_frame_def
  sample_frame_def sample_frame_text_def column_tolist_def get_dataset_verbalizers_def
  Let_def sublist_Cons_right upt_rec suffix_to_prefix

lemma sample_load:
  "load_few_shot_classification_dataset sample_globals sample_fs ''agnews'' (Some 0) ''train''
     ''./data'' 16 ''roberta-large'' =
   (Inr ([''good film'', ''dull film''], [''1'', ''0''], 2,
         [u0120 @ ''terrible'', u0120 @ ''great''],
         Some ''<mask> {clean_prompt} {sentence}''),
    [''./data/16-shot/agnews/16-100/train.tsv''])"
  by (simp add: sample_simps)

lemma sample_load_deberta:
  "load_few_shot_classification_dataset sample_globals sample_fs ''agnews'' (Some 0) ''dev''
     ''./data'' 16 ''deberta-base'' =
   (Inr ([''good film'', ''dull film''], [''1'', ''0''], 2,
         [u0120 @ ''terrible'', u0120 @ ''great''],
         Some ''[MASK] {clean_prompt} {sentence}''),
    [''./data/16-shot/agnews/16-100/dev.tsv''])"
  by (simp add: sample_simps)

lemma sample_load_gpt2:
  "load_few_shot_classification_dataset sample_globals sample_fs ''agnews'' (Some 0) ''test''
     ''./data'' 16 ''gpt2-large'' =
   (Inr ([''good film'', ''dull film''], [''1'', ''0''], 2,
         [u0120 @ ''terrible'', u0120 @ ''great''], None),
    [''./data/16-shot/agnews/16-100/test.tsv''])"
  by (simp add: sample_simps)

lemma sample_load_yelp:
  "load_few_shot_classification_dataset sample_globals sample_fs ''yelp'' (Some 1) ''test''
     ''./data/'' 16 ''bert-large-cased'' =
   (Inr ([''fine food''], [''1''], 2, [''terrible'', ''great''], None),
    [''./data/16-shot/yelp/16-13/test.tsv''])"
  by (simp add: sample_simps)

lemma column_tolist_length:
  "column_tolist df name = Inr xs \<Longrightarrow> length xs = nrows df"
  by (auto simp: column_tolist_def split: option.splits)

lemma load_frame_total:
  assumes "dataset \<in> {''CoLA'', ''yelp'', ''agnews'', ''ReCoRD'', ''QuAC''}"
      and "columns df ''text'' \<noteq> None \<or> columns df ''sentence'' \<noteq> None"
      and "columns df ''label'' \<noteq> None"
  shows "\<exists>r. load_frame df dataset task_lm = Inr r"
proof -
  have "dataset \<in> set [''CoLA'', ''yelp'', ''agnews'', ''ReCoRD'', ''QuAC'']"
    using assms(1) by simp
  then obtain vs where "get_dataset_verbalizers dataset task_lm = Inr vs"
    unfolding get_dataset_verbalizers_def Let_def by simp
  then show ?thesis
    using assms(2,3)
    by (auto simp: load_frame_def column_tolist_def Let_def split: option.splits)
qed

lemma load_Inr_lengths:
  assumes "load_few_shot_classification_dataset genv fs dataset dataset_seed split base_path
             num_shots task_lm = (Inr (st, cl, nc, vb, tm), reads)"
  shows "length st = length cl"
proof -
  obtain df where l: "load_frame df dataset task_lm = Inr (st, cl, nc, vb, tm)"
    using load_Inr_frame [OF assms] by blast
  have "(if columns df ''text'' \<noteq> None then column_tolist df ''text''
             else column_tolist df ''sentence'') = Inr st"
    and "column_tolist df ''label'' = Inr cl"
    using load_frame_Inr [OF l] by simp_all
  then have "length st = nrows df" and "length cl = nrows df"
    by (auto dest: column_tolist_length split: if_splits)
  then show ?thesis by simp
qed

lemma load_Inr_config:
  assumes "load_few_shot_classification_dataset genv fs dataset dataset_seed split base_path
             num_shots task_lm = (Inr (st, cl, nc, vb, tm), reads)"
      and "load_few_shot_classification_dataset genv fs dataset dataset_seed split' base_path
             num_shots task_lm = (Inr (st', cl', nc', vb', tm'), reads')"
  shows "nc = nc' \<and> vb = vb' \<and> tm = tm'"
proof -
  obtain df where l: "load_frame df dataset task_lm = Inr (st, cl, nc, vb, tm)"
    using load_Inr_frame [OF assms(1)] by blast
  obtain df' where l': "load_frame df' dataset task_lm = Inr (st', cl', nc', vb', tm')"
    using load_Inr_frame [OF assms(2)] by blast
  have "get_dataset_verbalizers dataset task_lm = Inr vb"
    and "get_dataset_verbalizers dataset task_lm = Inr vb'"
    using load_frame_Inr(3) [OF l] load_frame_Inr(3) [OF l'] by simp_all
  then have "vb = vb'" by simp
  moreover have "nc = int (length vb)" and "nc' = int (length vb')"
    using load_frame_Inr(4) [OF l] load_frame_Inr(4) [OF l'] by simp_all
  moreover have "tm = tm'"
    using load_frame_Inr(5) [OF l] load_frame_Inr(5) [OF l'] by simp
  ultimately show ?thesis by simp
qed

lemma load_Inr_reads:
  assumes "load_few_shot_classification_dataset genv fs dataset dataset_seed split base_path
             num_shots task_lm = (Inr r, reads)"
  shows "\<exists>p. reads = [p]"
  using load_Inr_frame [OF assms] by blast

lemma make_loop_Cons_Inr:
  assumes "make_loop genv fs config (split # splits) data_dict locals = (Inr s, reads)"
  shows "\<exists>st cl nc vb tm r1 r2.
           load_few_shot_classification_dataset genv fs (cfg_dataset config)
             (cfg_dataset_seed config) split (cfg_base_path config)
             (cfg_num_shots config) (cfg_task_lm config) = (Inr (st, cl, nc, vb, tm), r1)
         \<and> make_loop genv fs config splits
               (data_dict(split \<mapsto> \<lparr>self_source_texts = st, self_class_labels = cl\<rparr>))
               (Some (nc, vb, tm)) = (Inr s, r2)
         \<and> reads = r1 @ r2"
  using assms
  by (auto simp: PromptedClassificationDataset_init_def
           split: prod.splits sum.splits if_splits)

lemma make_loop_Cons_step:
  assumes "load_few_shot_classification_dataset genv fs (cfg_dataset config)
             (cfg_dataset_seed config) split (cfg_base_path config)
             (cfg_num_shots config) (cfg_task_lm config) = (Inr (st, cl, nc, vb, tm), r1)"
  shows "make_loop genv fs config (split # splits) data_dict locals =
           (case make_loop genv fs config splits
                   (data_dict(split \<mapsto> \<lparr>self_source_texts = st, self_class_labels = cl\<rparr>))
                   (Some (nc, vb, tm)) of
              (r, reads') \<Rightarrow> (r, r1 @ reads'))"
  using assms load_Inr_lengths [OF assms]
  by (simp add: PromptedClassificationDataset_init_def)

lemma make_of_loads:
  assumes tr: "load_split genv fs config ''train'' = (Inr (st1, cl1, nc1, vb1, tm1), r1)"
      and dv: "load_split genv fs config ''dev'' = (Inr (st2, cl2, nc2, vb2, tm2), r2)"
      and te: "load_split genv fs config ''test'' = (Inr (st3, cl3, nc3, vb3, tm3), r3)"
  shows "make_few_shot_classification_dataset genv fs config =
           (Inr (\<lparr>self_source_texts = st1, self_class_labels = cl1\<rparr>,
                 \<lparr>self_source_texts = st2, self_class_labels = cl2\<rparr>,
                 \<lparr>self_source_texts = st3, self_class_labels = cl3\<rparr>,
                 nc3, vb3, tm3), r1 @ r2 @ r3)"
  unfolding make_few_shot_classification_dataset_def
  by (simp add: make_loop_Cons_step [OF tr] make_loop_Cons_step [OF dv]
        make_loop_Cons_step [OF te] del: make_loop.simps(2))

lemma sample_load_split:
  "load_split sample_globals sample_fs sample_config ''train'' =
     (Inr ([''good film'', ''dull film''], [''1'', ''0''], 2,
           [u0120 @ ''terrible'', u0120 @ ''great''],
           Some ''<mask> {clean_prompt} {sentence}''),
      [''./data/16-shot/agnews/16-100/train.tsv''])"
  "load_split sample_globals sample_fs sample_config ''dev'' =
     (Inr ([''good film'', ''dull film''], [''1'', ''0''], 2,
           [u0120 @ ''terrible'', u0120 @ ''great''],
           Some ''<mask> {clean_prompt} {sentence}''),
      [''./data/16-shot/agnews/16-100/dev.tsv''])"
  "load_split sample_globals sample_fs sample_config ''test'' =
     (Inr ([''good film'', ''dull film''], [''1'', ''0''], 2,
           [u0120 @ ''terrible'', u0120 @ ''great''],
           Some ''<mask> {clean_prompt} {sentence}''),
      [''./data/16-shot/agnews/16-100/test.tsv''])"
  by (simp_all add: sample_config_def sample_simps)

lemma list_getitem_in_range:
  "0 \<le> i \<Longrightarrow> i < int (length xs) \<Longrightarrow> list_getitem xs i = Inr (xs ! nat i)"
  by (simp add: list_getitem_def)

subsection \<open>Verbalizers\<close>

text \<open>
  Claim C1. For each of the five allowed datasets and every \<^verbatim>\<open>task_lm\<close>,
  \<^verbatim>\<open>get_dataset_verbalizers\<close> returns normally, and the list depends on the model name only:
  the plain words for \<^verbatim>\<open>bert-large-cased\<close>, the words prefixed by U+2581 for the two
  llama-2 models, and the words prefixed by U+0120 for every other model name
  (\<^verbatim>\<open>gpt4\<close> and \<^verbatim>\<open>gpt3.5\<close> among them).
\<close>

theorem get_dataset_verbalizers_allowed:
  assumes "dataset \<in> {''CoLA'', ''yelp'', ''agnews'', ''ReCoRD'', ''QuAC''}"
  shows "get_dataset_verbalizers dataset task_lm =
           Inr (if task_lm = ''bert-large-cased'' then [''terrible'', ''great'']
                else if task_lm = ''llama-2-7b'' \<or> task_lm = ''llama-2-13b''
                  then [u2581 @ ''terrible'', u2581 @ ''great'']
                else [u0120 @ ''terrible'', u0120 @ ''great''])"
proof -
  have allowed: "dataset \<in> set [''CoLA'', ''yelp'', ''agnews'', ''ReCoRD'', ''QuAC'']"
    using assms by simp
  show ?thesis
    unfolding get_dataset_verbalizers_def Let_def if_P [OF allowed]
    by simp
qed

theorem get_dataset_verbalizers_allowed_witness:
  "''yelp'' \<in> {''CoLA'', ''yelp'', ''agnews'', ''ReCoRD'', ''QuAC''}
   \<and> get_dataset_verbalizers ''yelp'' ''bert-large-cased'' = Inr [''terrible'', ''great'']
   \<and> get_dataset_verbalizers ''agnews'' ''llama-2-13b''
       = Inr [[CHR 0xE2, CHR 0x96, CHR 0x81] @ ''terrible'', [CHR 0xE2, CHR 0x96, CHR 0x81] @ ''great'']
   \<and> get_dataset_verbalizers ''QuAC'' ''gpt4''
       = Inr [[CHR 0xC4, CHR 0xA0] @ ''terrible'', [CHR 0xC4, CHR 0xA0] @ ''great'']
   \<and> get_dataset_verbalizers ''CoLA'' ''distilroberta-base''
       = Inr [[CHR 0xC4, CHR 0xA0] @ ''terrible'', [CHR 0xC4, CHR 0xA0] @ ''great'']"
  using get_dataset_verbalizers_allowed [of "''yelp''" "''bert-large-cased''"]
        get_dataset_verbalizers_allowed [of "''agnews''" "''llama-2-13b''"]
        get_dataset_verbalizers_allowed [of "''QuAC''" "''gpt4''"]
        get_dataset_verbalizers_allowed [of "''CoLA''" "''distilroberta-base''"]
  by (simp add: u0120_def u2581_def)

text \<open>
  Claim C3. For each allowed dataset and every \<^verbatim>\<open>task_lm\<close> the verbalizer list has
  exactly two elements; whenever the loader returns, its \<^verbatim>\<open>num_classes\<close> is 2 and its
  verbalizer list has two elements; and no input makes \<^verbatim>\<open>get_dataset_verbalizers\<close> return
  the four news classes, because \<^verbatim>\<open>agnews\<close> is taken by the first branch.
\<close>

theorem verbalizers_two_classes:
  fixes fs :: "string \<Rightarrow> 'c dataframe option"
  shows "(dataset \<in> {''CoLA'', ''yelp'', ''agnews'', ''ReCoRD'', ''QuAC''}
          \<longrightarrow> (\<exists>vs. get_dataset_verbalizers dataset task_lm = Inr vs \<and> length vs = 2))
       \<and> (load_few_shot_classification_dataset genv fs dataset dataset_seed split base_path
             num_shots task_lm = (Inr (st, cl, nc, vb, tm), reads)
          \<longrightarrow> nc = 2 \<and> length vb = 2)
       \<and> get_dataset_verbalizers dataset task_lm
           \<noteq> Inr [''World'', ''Sports'', ''Business'', ''Tech'']"
proof (intro conjI impI)
  assume "dataset \<in> {''CoLA'', ''yelp'', ''agnews'', ''ReCoRD'', ''QuAC''}"
  then have "dataset \<in> set [''CoLA'', ''yelp'', ''agnews'', ''ReCoRD'', ''QuAC'']"
    by simp
  then show "\<exists>vs. get_dataset_verbalizers dataset task_lm = Inr vs \<and> length vs = 2"
    unfolding get_dataset_verbalizers_def Let_def by simp
next
  assume "load_few_shot_classification_dataset genv fs dataset dataset_seed split base_path
             num_shots task_lm = (Inr (st, cl, nc, vb, tm), reads)"
  then obtain df where "load_frame df dataset task_lm = Inr (st, cl, nc, vb, tm)"
    using load_Inr_frame by blast
  then have "get_dataset_verbalizers dataset task_lm = Inr vb" and "nc = int (length vb)"
    by (rule load_frame_Inr)+
  moreover from this(1) have "length vb = 2"
    using verbalizers_cases by fastforce
  ultimately show "nc = 2" and "length vb = 2" by simp_all
next
  show "get_dataset_verbalizers dataset task_lm
           \<noteq> Inr [''World'', ''Sports'', ''Business'', ''Tech'']"
  proof
    assume "get_dataset_verbalizers dataset task_lm
              = Inr [''World'', ''Sports'', ''Business'', ''Tech'']"
    then have "length [''World'', ''Sports'', ''Business'', ''Tech''] = 2"
      using verbalizers_cases by fastforce
    then show False by simp
  qed
qed

theorem verbalizers_two_classes_witness:
  "''agnews'' \<in> {''CoLA'', ''yelp'', ''agnews'', ''ReCoRD'', ''QuAC''}
   \<and> (\<exists>vs. get_dataset_verbalizers ''agnews'' ''roberta-large'' = Inr vs \<and> length vs = 2)
   \<and> load_few_shot_classification_dataset sample_globals sample_fs ''agnews'' (Some 0)
        ''train'' ''./data'' 16 ''roberta-large'' =
      (Inr ([''good film'', ''dull film''], [''1'', ''0''], 2,
            [u0120 @ ''terrible'', u0120 @ ''great''],
            Some ''<mask> {clean_prompt} {sentence}''),
       [''./data/16-shot/agnews/16-100/train.tsv''])
   \<and> (2::int) = 2 \<and> length [u0120 @ ''terrible'', u0120 @ ''great''] = 2
   \<and> get_dataset_verbalizers ''agnews'' ''roberta-large''
        \<noteq> Inr [''World'', ''Sports'', ''Business'', ''Tech'']"
  using verbalizers_two_classes [of "''agnews''" "''roberta-large''" sample_globals sample_fs
      "Some 0" "''train''" "''./data''" 16 "[''good film'', ''dull film'']" "[''1'', ''0'']" 2
      "[u0120 @ ''terrible'', u0120 @ ''great'']" "Some ''<mask> {clean_prompt} {sentence}''"
      "[''./data/16-shot/agnews/16-100/train.tsv'']"]
    sample_load
  by simp

subsection \<open>The loader in the module as it stands\<close>

text \<open>
  Claim C2. With the global names the module binds, every call of the loader whose
  \<^verbatim>\<open>dataset\<close>, \<^verbatim>\<open>split\<close> and \<^verbatim>\<open>num_shots\<close> pass the assertions raises
  \<^verbatim>\<open>NameError\<close> with no file read, since \<^verbatim>\<open>seed_dict\<close> is not among those names. Hence
  neither the loader nor \<^verbatim>\<open>make_few_shot_classification_dataset\<close> returns normally, on any
  input and any file system.
\<close>

theorem load_NameError:
  fixes fs :: "string \<Rightarrow> 'c dataframe option" and config :: "'f DictConfig"
  shows "(dataset \<in> {''CoLA'', ''yelp'', ''agnews'', ''ReCoRD'', ''QuAC''}
          \<and> split \<in> {''train'', ''dev'', ''test''} \<and> num_shots = 16
          \<longrightarrow> load_few_shot_classification_dataset helpers_globals fs dataset dataset_seed
                split base_path num_shots task_lm = (Inl NameError, []))
       \<and> (\<forall>r. fst (load_few_shot_classification_dataset helpers_globals fs dataset
                     dataset_seed split base_path num_shots task_lm) \<noteq> Inr r)
       \<and> (\<forall>r. fst (make_few_shot_classification_dataset helpers_globals fs config) \<noteq> Inr r)"
proof -
  have acc: "load_few_shot_classification_dataset helpers_globals fs d s sp b n t
               = (Inl NameError, [])"
    if "d \<in> {''CoLA'', ''yelp'', ''agnews'', ''ReCoRD'', ''QuAC''}"
       "sp \<in> {''train'', ''dev'', ''test''}" "n = 16"
    for d s sp b n t
    using that by (simp add: load_accepted load_global_def seed_dict_unbound)
  have never: "\<exists>e. load_few_shot_classification_dataset helpers_globals fs d s sp b n t
                 = (Inl e, [])" for d s sp b n t
  proof (cases "d \<in> {''CoLA'', ''yelp'', ''agnews'', ''ReCoRD'', ''QuAC''}
                \<and> sp \<in> {''train'', ''dev'', ''test''} \<and> n = 16")
    case True
    then show ?thesis using acc by blast
  next
    case False
    then show ?thesis
      by (auto simp: load_few_shot_classification_dataset_def)
  qed
  have "\<exists>e. make_loop helpers_globals fs config (sp # sps) dd loc = (Inl e, [])"
    for sp sps dd loc
  proof -
    obtain e where "load_few_shot_classification_dataset helpers_globals fs
        (cfg_dataset config) (cfg_dataset_seed config) sp (cfg_base_path config)
        (cfg_num_shots config) (cfg_task_lm config) = (Inl e, [])"
      using never by blast
    then show ?thesis by simp
  qed
  then obtain e where "make_loop helpers_globals fs config [''train'', ''dev'', ''test'']
      Map.empty None = (Inl e, [])"
    by blast
  then have "make_few_shot_classification_dataset helpers_globals fs config = (Inl e, [])"
    by (simp add: make_few_shot_classification_dataset_def)
  then have "\<forall>r. fst (make_few_shot_classification_dataset helpers_globals fs config) \<noteq> Inr r"
    by simp
  moreover have "\<forall>r. fst (load_few_shot_classification_dataset helpers_globals fs dataset
                     dataset_seed split base_path num_shots task_lm) \<noteq> Inr r"
    using never [of dataset dataset_seed split base_path num_shots task_lm] by auto
  ultimately show ?thesis using acc by auto
qed

theorem load_NameError_witness:
  "''yelp'' \<in> {''CoLA'', ''yelp'', ''agnews'', ''ReCoRD'', ''QuAC''}
   \<and> ''dev'' \<in> {''train'', ''dev'', ''test''} \<and> (16::int) = 16
   \<and> load_few_shot_classification_dataset helpers_globals sample_fs ''yelp'' (Some 0)
        ''dev'' ''./data'' 16 ''roberta-large'' = (Inl NameError, [])
   \<and> (\<forall>r. fst (make_few_shot_classification_dataset helpers_globals sample_fs sample_config)
          \<noteq> Inr r)"
  using load_NameError [of "''yelp''" "''dev''" 16 sample_fs "Some 0" "''./data''"
      "''roberta-large''" sample_config]
  by simp

subsection \<open>The loader's results\<close>

text \<open>
  Claim C4. Whenever the loader returns, its template is decided by \<^verbatim>\<open>dataset\<close> and
  \<^verbatim>\<open>task_lm\<close>, the cases read in the order of the source: the \<^verbatim>\<open>[MASK]\<close> template for
  \<^verbatim>\<open>agnews\<close> with \<^verbatim>\<open>deberta-base\<close>; otherwise the \<^verbatim>\<open><mask>\<close> template for \<^verbatim>\<open>agnews\<close>
  with a model name that does not contain \<^verbatim>\<open>gpt\<close>; and \<^verbatim>\<open>None\<close> for every other dataset
  and for \<^verbatim>\<open>agnews\<close> with a model name containing \<^verbatim>\<open>gpt\<close>.
\<close>

theorem load_template:
  fixes fs :: "string \<Rightarrow> 'c dataframe option"
  assumes "load_few_shot_classification_dataset genv fs dataset dataset_seed split base_path
             num_shots task_lm = (Inr (st, cl, nc, vb, tm), reads)"
  shows "(dataset = ''agnews'' \<and> task_lm = ''deberta-base''
            \<longrightarrow> tm = Some ''[MASK] {clean_prompt} {sentence}'')
       \<and> (dataset = ''agnews'' \<and> task_lm \<noteq> ''deberta-base'' \<and> \<not> sublist ''gpt'' task_lm
            \<longrightarrow> tm = Some ''<mask> {clean_prompt} {sentence}'')
       \<and> (dataset \<noteq> ''agnews'' \<longrightarrow> tm = None)
       \<and> (dataset = ''agnews'' \<and> sublist ''gpt'' task_lm \<longrightarrow> tm = None)"
proof -
  obtain df where "load_frame df dataset task_lm = Inr (st, cl, nc, vb, tm)"
    using assms load_Inr_frame by blast
  then have tm: "tm = (if dataset = ''agnews'' \<and> task_lm = ''deberta-base''
                 then Some ''[MASK] {clean_prompt} {sentence}''
               else if dataset = ''agnews'' \<and> \<not> sublist ''gpt'' task_lm
                 then Some ''<mask> {clean_prompt} {sentence}''
               else None)"
    by (rule load_frame_Inr)
  have "\<not> sublist ''gpt'' ''deberta-base''"
    by (simp add: sublist_Cons_right)
  with tm show ?thesis by auto
qed

theorem load_template_witness:
  "load_few_shot_classification_dataset sample_globals sample_fs ''agnews'' (Some 0) ''dev''
     ''./data'' 16 ''deberta-base'' =
   (Inr ([''good film'', ''dull film''], [''1'', ''0''], 2,
         [u0120 @ ''terrible'', u0120 @ ''great''],
         Some ''[MASK] {clean_prompt} {sentence}''),
    [''./data/16-shot/agnews/16-100/dev.tsv''])
   \<and> load_few_shot_classification_dataset sample_globals sample_fs ''agnews'' (Some 0)
       ''train'' ''./data'' 16 ''roberta-large'' =
     (Inr ([''good film'', ''dull film''], [''1'', ''0''], 2,
           [u0120 @ ''terrible'', u0120 @ ''great''],
           Some ''<mask> {clean_prompt} {sentence}''),
      [''./data/16-shot/agnews/16-100/train.tsv''])
   \<and> \<not> sublist ''gpt'' ''roberta-large''
   \<and> load_few_shot_classification_dataset sample_globals sample_fs ''agnews'' (Some 0)
       ''test'' ''./data'' 16 ''gpt2-large'' =
     (Inr ([''good film'', ''dull film''], [''1'', ''0''], 2,
           [u0120 @ ''terrible'', u0120 @ ''great''], None),
      [''./data/16-shot/agnews/16-100/test.tsv''])
   \<and> sublist ''gpt'' ''gpt2-large''
   \<and> load_few_shot_classification_dataset sample_globals sample_fs ''yelp'' (Some 1)
       ''test'' ''./data/'' 16 ''bert-large-cased'' =
     (Inr ([''fine food''], [''1''], 2, [''terrible'', ''great''], None),
      [''./data/16-shot/yelp/16-13/test.tsv''])"
  using load_template [OF sample_load_deberta] load_template [OF sample_load]
    load_template [OF sample_load_gpt2] load_template [OF sample_load_yelp]
    sample_load_deberta sample_load sample_load_gpt2 sample_load_yelp
  by (simp add: sublist_Cons_right)

text \<open>
  Claim C5. The loader raises \<^verbatim>\<open>AssertionError\<close>, with no file read, whenever
  \<^verbatim>\<open>dataset\<close> is not one of the five names, or \<^verbatim>\<open>split\<close> is not one of \<^verbatim>\<open>train\<close>,
  \<^verbatim>\<open>dev\<close>, \<^verbatim>\<open>test\<close>, or \<^verbatim>\<open>num_shots\<close> is not 16; and these are the only rejected
  values: on every other input the loader does not raise \<^verbatim>\<open>AssertionError\<close>.
\<close>

theorem load_assertions:
  fixes fs :: "string \<Rightarrow> 'c dataframe option"
  shows "(dataset \<notin> {''CoLA'', ''yelp'', ''agnews'', ''ReCoRD'', ''QuAC''}
          \<or> split \<notin> {''train'', ''dev'', ''test''} \<or> num_shots \<noteq> 16
          \<longrightarrow> load_few_shot_classification_dataset genv fs dataset dataset_seed split
                base_path num_shots task_lm = (Inl AssertionError, []))
       \<and> (dataset \<in> {''CoLA'', ''yelp'', ''agnews'', ''ReCoRD'', ''QuAC''}
          \<and> split \<in> {''train'', ''dev'', ''test''} \<and> num_shots = 16
          \<longrightarrow> fst (load_few_shot_classification_dataset genv fs dataset dataset_seed split
                base_path num_shots task_lm) \<noteq> Inl AssertionError)"
proof (intro conjI impI)
  assume "dataset \<notin> {''CoLA'', ''yelp'', ''agnews'', ''ReCoRD'', ''QuAC''}
          \<or> split \<notin> {''train'', ''dev'', ''test''} \<or> num_shots \<noteq> 16"
  then show "load_few_shot_classification_dataset genv fs dataset dataset_seed split
                base_path num_shots task_lm = (Inl AssertionError, [])"
    by (auto simp: load_few_shot_classification_dataset_def)
next
  assume "dataset \<in> {''CoLA'', ''yelp'', ''agnews'', ''ReCoRD'', ''QuAC''}
          \<and> split \<in> {''train'', ''dev'', ''test''} \<and> num_shots = 16"
  then have "load_few_shot_classification_dataset genv fs dataset dataset_seed split base_path
           num_shots task_lm =
         (case load_global genv ''seed_dict'' of
           Inl e \<Rightarrow> (Inl e, [])
         | Inr sd \<Rightarrow>
             (case subscript sd dataset_seed of
                Inl e \<Rightarrow> (Inl e, [])
              | Inr seed_path \<Rightarrow>
                  (case read_csv fs (os_path_join base_path (''16-shot/'' @ dataset @ ''/''
                                    @ seed_path @ ''/'' @ split @ ''.tsv'')) of
                         Inl e \<Rightarrow> Inl e
                       | Inr df \<Rightarrow> load_frame df dataset task_lm,
                       [os_path_join base_path (''16-shot/'' @ dataset @ ''/''
                                    @ seed_path @ ''/'' @ split @ ''.tsv'')])))"
    by (intro load_accepted) simp_all
  then show "fst (load_few_shot_classification_dataset genv fs dataset dataset_seed split
                base_path num_shots task_lm) \<noteq> Inl AssertionError"
    by (auto simp: load_global_def subscript_def read_csv_def load_frame_no_AssertionError
             split: sum.splits option.splits pyobject.splits)
qed

theorem load_assertions_witness:
  "''sst-2'' \<notin> {''CoLA'', ''yelp'', ''agnews'', ''ReCoRD'', ''QuAC''}
   \<and> load_few_shot_classification_dataset sample_globals sample_fs ''sst-2'' (Some 0)
        ''train'' ''./data'' 16 ''roberta-large'' = (Inl AssertionError, [])
   \<and> ''validation'' \<notin> {''train'', ''dev'', ''test''}
   \<and> load_few_shot_classification_dataset sample_globals sample_fs ''agnews'' (Some 0)
        ''validation'' ''./data'' 16 ''roberta-large'' = (Inl AssertionError, [])
   \<and> (32::int) \<noteq> 16
   \<and> load_few_shot_classification_dataset sample_globals sample_fs ''agnews'' (Some 0)
        ''train'' ''./data'' 32 ''roberta-large'' = (Inl AssertionError, [])
   \<and> ''agnews'' \<in> {''CoLA'', ''yelp'', ''agnews'', ''ReCoRD'', ''QuAC''}
   \<and> ''train'' \<in> {''train'', ''dev'', ''test''} \<and> (16::int) = 16
   \<and> fst (load_few_shot_classification_dataset sample_globals sample_fs ''agnews'' (Some 0)
        ''train'' ''./data'' 16 ''roberta-large'') \<noteq> Inl AssertionError"
  using load_assertions [of "''sst-2''" "''train''" 16 sample_globals sample_fs "Some 0"
          "''./data''" "''roberta-large''"]
        load_assertions [of "''agnews''" "''validation''" 16 sample_globals sample_fs "Some 0"
          "''./data''" "''roberta-large''"]
        load_assertions [of "''agnews''" "''train''" 32 sample_globals sample_fs "Some 0"
          "''./data''" "''roberta-large''"]
        load_assertions [of "''agnews''" "''train''" 16 sample_globals sample_fs "Some 0"
          "''./data''" "''roberta-large''"]
  by simp

text \<open>
  Claim C6. On accepted \<^verbatim>\<open>dataset\<close>, \<^verbatim>\<open>split\<close> and \<^verbatim>\<open>num_shots\<close>, with \<^verbatim>\<open>seed_dict\<close>
  bound to a dictionary that has the key \<^verbatim>\<open>dataset_seed\<close>, the loader reads exactly one
  file: \<^verbatim>\<open>base_path\<close> joined with the number of shots (whose text is \<^verbatim>\<open>16\<close>), the
  dataset, the seed's entry and the split, in the fixed layout. Nothing about the frame
  found there is checked: any frame that has the columns the loader reads makes it
  return normally.
\<close>

theorem load_reads_path:
  fixes fs :: "string \<Rightarrow> 'c dataframe option"
  assumes "dataset \<in> {''CoLA'', ''yelp'', ''agnews'', ''ReCoRD'', ''QuAC''}"
      and "split \<in> {''train'', ''dev'', ''test''}"
      and "num_shots = 16"
      and "genv ''seed_dict'' = Some (Dict seed_dict)"
      and "seed_dict dataset_seed = Some seed_path"
  shows "snd (load_few_shot_classification_dataset genv fs dataset dataset_seed split
                base_path num_shots task_lm)
           = [os_path_join base_path
                (str_int num_shots @ ''-shot/'' @ dataset @ ''/'' @ seed_path @ ''/'' @ split
                  @ ''.tsv'')]
       \<and> str_int num_shots = ''16''
       \<and> (\<forall>df. fs (os_path_join base_path
                  (str_int num_shots @ ''-shot/'' @ dataset @ ''/'' @ seed_path @ ''/''
                    @ split @ ''.tsv'')) = Some df
              \<and> (columns df ''text'' \<noteq> None \<or> columns df ''sentence'' \<noteq> None)
              \<and> columns df ''label'' \<noteq> None
              \<longrightarrow> (\<exists>r. fst (load_few_shot_classification_dataset genv fs dataset
                            dataset_seed split base_path num_shots task_lm) = Inr r))"
proof -
  let ?p = "os_path_join base_path
              (''16-shot/'' @ dataset @ ''/'' @ seed_path @ ''/'' @ split @ ''.tsv'')"
  have eq: "load_few_shot_classification_dataset genv fs dataset dataset_seed split base_path
              num_shots task_lm =
            (case read_csv fs ?p of Inl e \<Rightarrow> Inl e
             | Inr df \<Rightarrow> load_frame df dataset task_lm, [?p])"
    using assms(4,5)
    by (simp add: load_accepted [OF assms(1-3)] load_global_def subscript_def)
  have n: "str_int num_shots = ''16''"
    using assms(3) str_int_16 by simp
  have "\<exists>r. fst (load_few_shot_classification_dataset genv fs dataset
                            dataset_seed split base_path num_shots task_lm) = Inr r"
    if "fs ?p = Some df" "columns df ''text'' \<noteq> None \<or> columns df ''sentence'' \<noteq> None"
       "columns df ''label'' \<noteq> None" for df
    using load_frame_total [OF assms(1) that(2,3), of task_lm] that(1)
    by (auto simp: eq read_csv_def)
  then show ?thesis
    using eq n by auto
qed

theorem load_reads_path_witness:
  "''yelp'' \<in> {''CoLA'', ''yelp'', ''agnews'', ''ReCoRD'', ''QuAC''}
   \<and> ''test'' \<in> {''train'', ''dev'', ''test''} \<and> (16::int) = 16
   \<and> sample_globals ''seed_dict'' = Some (Dict sample_seed_dict)
   \<and> sample_seed_dict (Some 1) = Some ''16-13''
   \<and> snd (load_few_shot_classification_dataset sample_globals sample_fs ''yelp'' (Some 1)
             ''test'' ''./data/'' 16 ''bert-large-cased'')
        = [''./data/16-shot/yelp/16-13/test.tsv'']
   \<and> sample_fs ''./data/16-shot/yelp/16-13/test.tsv'' = Some sample_frame_text
   \<and> columns sample_frame_text ''text'' \<noteq> None
   \<and> columns sample_frame_text ''label'' \<noteq> None
   \<and> (\<exists>r. fst (load_few_shot_classification_dataset sample_globals sample_fs ''yelp''
                 (Some 1) ''test'' ''./data/'' 16 ''bert-large-cased'') = Inr r)"
proof -
  have h1: "''yelp'' \<in> {''CoLA'', ''yelp'', ''agnews'', ''ReCoRD'', ''QuAC''}" by simp
  have h2: "''test'' \<in> {''train'', ''dev'', ''test''}" by simp
  have h3: "(16::int) = 16" by simp
  have h4: "sample_globals ''seed_dict'' = Some (Dict sample_seed_dict)"
    by (simp add: sample_globals_def)
  have h5: "sample_seed_dict (Some 1) = Some ''16-13''"
    by (simp add: sample_seed_dict_def)
  have p: "os_path_join ''./data/'' (str_int 16 @ ''-shot/'' @ ''yelp'' @ ''/'' @ ''16-13''
             @ ''/'' @ ''test'' @ ''.tsv'') = ''./data/16-shot/yelp/16-13/test.tsv''"
    by (simp add: os_path_join_def str_int_16 suffix_to_prefix)
  have f: "sample_fs ''./data/16-shot/yelp/16-13/test.tsv'' = Some sample_frame_text"
    by (simp add: sample_fs_def)
  have c: "columns sample_frame_text ''text'' \<noteq> None"
          "columns sample_frame_text ''label'' \<noteq> None"
    by (simp_all add: sample_frame_text_def)
  from load_reads_path [where dataset = "''yelp''" and split = "''test''" and num_shots = 16
      and genv = sample_globals and seed_dict = sample_seed_dict and dataset_seed = "Some 1"
      and seed_path = "''16-13''" and fs = sample_fs and base_path = "''./data/''"
      and task_lm = "''bert-large-cased''", OF h1 h2 h3 h4 h5]
  show ?thesis
    unfolding p using h4 h5 f c by simp
qed

text \<open>
  Claim C7. Whenever the loader returns, it has read one file; \<^verbatim>\<open>source_texts\<close> is the
  \<^verbatim>\<open>text\<close> column of its frame when there is one and the \<^verbatim>\<open>sentence\<close> column otherwise,
  and \<^verbatim>\<open>class_labels\<close> is its \<^verbatim>\<open>label\<close> column, each in row order.
\<close>

theorem load_columns:
  fixes fs :: "string \<Rightarrow> 'c dataframe option"
  assumes "load_few_shot_classification_dataset genv fs dataset dataset_seed split base_path
             num_shots task_lm = (Inr (source_texts, class_labels, nc, vb, tm), reads)"
  shows "\<exists>path df label.
           reads = [path] \<and> fs path = Some df
         \<and> (case columns df ''text'' of
               Some text \<Rightarrow> source_texts = map text [0..<nrows df]
             | None \<Rightarrow> (\<exists>sentence. columns df ''sentence'' = Some sentence
                           \<and> source_texts = map sentence [0..<nrows df]))
         \<and> columns df ''label'' = Some label
         \<and> class_labels = map label [0..<nrows df]"
proof -
  obtain path df where r: "reads = [path]" and f: "fs path = Some df"
    and l: "load_frame df dataset task_lm = Inr (source_texts, class_labels, nc, vb, tm)"
    using load_Inr_frame [OF assms] by blast
  have st: "(if columns df ''text'' \<noteq> None then column_tolist df ''text''
             else column_tolist df ''sentence'') = Inr source_texts"
    and cl: "column_tolist df ''label'' = Inr class_labels"
    using load_frame_Inr [OF l] by simp_all
  from cl obtain label where "columns df ''label'' = Some label"
    and "class_labels = map label [0..<nrows df]"
    by (auto simp: column_tolist_def split: option.splits)
  moreover from st have "case columns df ''text'' of
               Some text \<Rightarrow> source_texts = map text [0..<nrows df]
             | None \<Rightarrow> (\<exists>sentence. columns df ''sentence'' = Some sentence
                           \<and> source_texts = map sentence [0..<nrows df])"
    by (auto simp: column_tolist_def split: option.splits if_splits)
  ultimately show ?thesis using r f by blast
qed

theorem load_columns_witness:
  "load_few_shot_classification_dataset sample_globals sample_fs ''yelp'' (Some 1) ''test''
     ''./data/'' 16 ''bert-large-cased'' =
   (Inr ([''fine food''], [''1''], 2, [''terrible'', ''great''], None),
    [''./data/16-shot/yelp/16-13/test.tsv''])
   \<and> (\<exists>path df label.
           [''./data/16-shot/yelp/16-13/test.tsv''] = [path] \<and> sample_fs path = Some df
         \<and> (case columns df ''text'' of
               Some text \<Rightarrow> [''fine food''] = map text [0..<nrows df]
             | None \<Rightarrow> (\<exists>sentence. columns df ''sentence'' = Some sentence
                           \<and> [''fine food''] = map sentence [0..<nrows df]))
         \<and> columns df ''label'' = Some label
         \<and> [''1''] = map label [0..<nrows df])
   \<and> load_few_shot_classification_dataset sample_globals sample_fs ''agnews'' (Some 0)
       ''train'' ''./data'' 16 ''roberta-large'' =
     (Inr ([''good film'', ''dull film''], [''1'', ''0''], 2,
           [u0120 @ ''terrible'', u0120 @ ''great''],
           Some ''<mask> {clean_prompt} {sentence}''),
      [''./data/16-shot/agnews/16-100/train.tsv''])
   \<and> (\<exists>path df label.
           [''./data/16-shot/agnews/16-100/train.tsv''] = [path] \<and> sample_fs path = Some df
         \<and> (case columns df ''text'' of
               Some text \<Rightarrow> [''good film'', ''dull film''] = map text [0..<nrows df]
             | None \<Rightarrow> (\<exists>sentence. columns df ''sentence'' = Some sentence
                           \<and> [''good film'', ''dull film''] = map sentence [0..<nrows df]))
         \<and> columns df ''label'' = Some label
         \<and> [''1'', ''0''] = map label [0..<nrows df])"
  using load_columns [OF sample_load_yelp] sample_load_yelp
    load_columns [OF sample_load] sample_load
  by simp

subsection \<open>The three splits\<close>

text \<open>
  Claim C8. \<^verbatim>\<open>make_few_shot_classification_dataset\<close> loads \<^verbatim>\<open>train\<close>, \<^verbatim>\<open>dev\<close> and
  \<^verbatim>\<open>test\<close> in that order and returns the three datasets built from the loaded lists,
  followed by \<^verbatim>\<open>num_classes\<close>, \<^verbatim>\<open>verbalizers\<close> and \<^verbatim>\<open>template\<close> of the last call, which
  are the same in all three calls. Both directions are stated: what a normal return
  implies about the three calls, and that three returning calls give a normal return.
\<close>

theorem make_few_shot_splits:
  fixes fs :: "string \<Rightarrow> 'c dataframe option" and config :: "'f DictConfig"
  shows "(make_few_shot_classification_dataset genv fs config
            = (Inr (train, dev, test, nc, vb, tm), reads)
          \<longrightarrow> (\<exists>p1 p2 p3. reads = [p1, p2, p3]
                \<and> load_split genv fs config ''train''
                    = (Inr (self_source_texts train, self_class_labels train, nc, vb, tm), [p1])
                \<and> load_split genv fs config ''dev''
                    = (Inr (self_source_texts dev, self_class_labels dev, nc, vb, tm), [p2])
                \<and> load_split genv fs config ''test''
                    = (Inr (self_source_texts test, self_class_labels test, nc, vb, tm), [p3])))
       \<and> (load_split genv fs config ''train'' = (Inr (st1, cl1, nc1, vb1, tm1), r1)
          \<and> load_split genv fs config ''dev'' = (Inr (st2, cl2, nc2, vb2, tm2), r2)
          \<and> load_split genv fs config ''test'' = (Inr (st3, cl3, nc3, vb3, tm3), r3)
          \<longrightarrow> make_few_shot_classification_dataset genv fs config
                = (Inr (\<lparr>self_source_texts = st1, self_class_labels = cl1\<rparr>,
                        \<lparr>self_source_texts = st2, self_class_labels = cl2\<rparr>,
                        \<lparr>self_source_texts = st3, self_class_labels = cl3\<rparr>,
                        nc3, vb3, tm3), r1 @ r2 @ r3)
              \<and> nc1 = nc3 \<and> vb1 = vb3 \<and> tm1 = tm3
              \<and> nc2 = nc3 \<and> vb2 = vb3 \<and> tm2 = tm3)"
proof (intro conjI impI)
  assume m: "make_few_shot_classification_dataset genv fs config
               = (Inr (train, dev, test, nc, vb, tm), reads)"
  then obtain s where l0: "make_loop genv fs config [''train'', ''dev'', ''test'']
                             Map.empty None = (Inr s, reads)"
    by (auto simp: make_few_shot_classification_dataset_def
             split: prod.splits sum.splits option.splits)
  from make_loop_Cons_Inr [OF l0] obtain st1 cl1 nc1 vb1 tm1 r1 q1
    where tr: "load_split genv fs config ''train'' = (Inr (st1, cl1, nc1, vb1, tm1), r1)"
      and l1: "make_loop genv fs config [''dev'', ''test'']
                 (Map.empty(''train'' \<mapsto> \<lparr>self_source_texts = st1, self_class_labels = cl1\<rparr>))
                 (Some (nc1, vb1, tm1)) = (Inr s, q1)"
    by blast
  from make_loop_Cons_Inr [OF l1] obtain st2 cl2 nc2 vb2 tm2 r2 q2
    where dv: "load_split genv fs config ''dev'' = (Inr (st2, cl2, nc2, vb2, tm2), r2)"
      and l2: "make_loop genv fs config [''test'']
                 (Map.empty(''train'' \<mapsto> \<lparr>self_source_texts = st1, self_class_labels = cl1\<rparr>,
                            ''dev'' \<mapsto> \<lparr>self_source_texts = st2, self_class_labels = cl2\<rparr>))
                 (Some (nc2, vb2, tm2)) = (Inr s, q2)"
    by blast
  from make_loop_Cons_Inr [OF l2] obtain st3 cl3 nc3 vb3 tm3 r3
    where te: "load_split genv fs config ''test'' = (Inr (st3, cl3, nc3, vb3, tm3), r3)"
    by blast
  from make_of_loads [OF tr dv te] m
  have eq: "train = \<lparr>self_source_texts = st1, self_class_labels = cl1\<rparr>"
           "dev = \<lparr>self_source_texts = st2, self_class_labels = cl2\<rparr>"
           "test = \<lparr>self_source_texts = st3, self_class_labels = cl3\<rparr>"
           "nc = nc3" "vb = vb3" "tm = tm3" "reads = r1 @ r2 @ r3"
    by simp_all
  obtain p1 p2 p3 where p: "r1 = [p1]" "r2 = [p2]" "r3 = [p3]"
    using load_Inr_reads [OF tr] load_Inr_reads [OF dv] load_Inr_reads [OF te] by blast
  have c1: "nc1 = nc3 \<and> vb1 = vb3 \<and> tm1 = tm3"
    using load_Inr_config [OF tr te] .
  have c2: "nc2 = nc3 \<and> vb2 = vb3 \<and> tm2 = tm3"
    using load_Inr_config [OF dv te] .
  show "\<exists>p1 p2 p3. reads = [p1, p2, p3]
                \<and> load_split genv fs config ''train''
                    = (Inr (self_source_texts train, self_class_labels train, nc, vb, tm), [p1])
                \<and> load_split genv fs config ''dev''
                    = (Inr (self_source_texts dev, self_class_labels dev, nc, vb, tm), [p2])
                \<and> load_split genv fs config ''test''
                    = (Inr (self_source_texts test, self_class_labels test, nc, vb, tm), [p3])"
    using tr dv te eq p c1 c2 by simp
next
  assume a: "load_split genv fs config ''train'' = (Inr (st1, cl1, nc1, vb1, tm1), r1)
          \<and> load_split genv fs config ''dev'' = (Inr (st2, cl2, nc2, vb2, tm2), r2)
          \<and> load_split genv fs config ''test'' = (Inr (st3, cl3, nc3, vb3, tm3), r3)"
  then have tr: "load_split genv fs config ''train'' = (Inr (st1, cl1, nc1, vb1, tm1), r1)"
    and dv: "load_split genv fs config ''dev'' = (Inr (st2, cl2, nc2, vb2, tm2), r2)"
    and te: "load_split genv fs config ''test'' = (Inr (st3, cl3, nc3, vb3, tm3), r3)"
    by simp_all
  show "make_few_shot_classification_dataset genv fs config
                = (Inr (\<lparr>self_source_texts = st1, self_class_labels = cl1\<rparr>,
                        \<lparr>self_source_texts = st2, self_class_labels = cl2\<rparr>,
                        \<lparr>self_source_texts = st3, self_class_labels = cl3\<rparr>,
                        nc3, vb3, tm3), r1 @ r2 @ r3)"
    by (rule make_of_loads [OF tr dv te])
  show "nc1 = nc3" "vb1 = vb3" "tm1 = tm3"
    using load_Inr_config [OF tr te] by simp_all
  show "nc2 = nc3" "vb2 = vb3" "tm2 = tm3"
    using load_Inr_config [OF dv te] by simp_all
qed

theorem make_few_shot_splits_witness:
  "load_split sample_globals sample_fs sample_config ''train'' =
     (Inr ([''good film'', ''dull film''], [''1'', ''0''], 2,
           [u0120 @ ''terrible'', u0120 @ ''great''],
           Some ''<mask> {clean_prompt} {sentence}''),
      [''./data/16-shot/agnews/16-100/train.tsv''])
   \<and> load_split sample_globals sample_fs sample_config ''dev'' =
     (Inr ([''good film'', ''dull film''], [''1'', ''0''], 2,
           [u0120 @ ''terrible'', u0120 @ ''great''],
           Some ''<mask> {clean_prompt} {sentence}''),
      [''./data/16-shot/agnews/16-100/dev.tsv''])
   \<and> load_split sample_globals sample_fs sample_config ''test'' =
     (Inr ([''good film'', ''dull film''], [''1'', ''0''], 2,
           [u0120 @ ''terrible'', u0120 @ ''great''],
           Some ''<mask> {clean_prompt} {sentence}''),
      [''./data/16-shot/agnews/16-100/test.tsv''])
   \<and> make_few_shot_classification_dataset sample_globals sample_fs sample_config =
     (Inr (\<lparr>self_source_texts = [''good film'', ''dull film''],
              self_class_labels = [''1'', ''0'']\<rparr>,
           \<lparr>self_source_texts = [''good film'', ''dull film''],
              self_class_labels = [''1'', ''0'']\<rparr>,
           \<lparr>self_source_texts = [''good film'', ''dull film''],
              self_class_labels = [''1'', ''0'']\<rparr>,
           2, [u0120 @ ''terrible'', u0120 @ ''great''],
           Some ''<mask> {clean_prompt} {sentence}''),
      [''./data/16-shot/agnews/16-100/train.tsv'',
       ''./data/16-shot/agnews/16-100/dev.tsv'',
       ''./data/16-shot/agnews/16-100/test.tsv''])"
proof -
  note t = make_few_shot_splits [where genv = sample_globals and fs = sample_fs
      and config = sample_config
      and ?st1.0 = "[''good film'', ''dull film'']" and ?cl1.0 = "[''1'', ''0'']"
      and ?nc1.0 = 2 and ?vb1.0 = "[u0120 @ ''terrible'', u0120 @ ''great'']"
      and ?tm1.0 = "Some ''<mask> {clean_prompt} {sentence}''"
      and ?r1.0 = "[''./data/16-shot/agnews/16-100/train.tsv'']"
      and ?st2.0 = "[''good film'', ''dull film'']" and ?cl2.0 = "[''1'', ''0'']"
      and ?nc2.0 = 2 and ?vb2.0 = "[u0120 @ ''terrible'', u0120 @ ''great'']"
      and ?tm2.0 = "Some ''<mask> {clean_prompt} {sentence}''"
      and ?r2.0 = "[''./data/16-shot/agnews/16-100/dev.tsv'']"
      and ?st3.0 = "[''good film'', ''dull film'']" and ?cl3.0 = "[''1'', ''0'']"
      and ?nc3.0 = 2 and ?vb3.0 = "[u0120 @ ''terrible'', u0120 @ ''great'']"
      and ?tm3.0 = "Some ''<mask> {clean_prompt} {sentence}''"
      and ?r3.0 = "[''./data/16-shot/agnews/16-100/test.tsv'']"]
  have "make_few_shot_classification_dataset sample_globals sample_fs sample_config =
     (Inr (\<lparr>self_source_texts = [''good film'', ''dull film''],
              self_class_labels = [''1'', ''0'']\<rparr>,
           \<lparr>self_source_texts = [''good film'', ''dull film''],
              self_class_labels = [''1'', ''0'']\<rparr>,
           \<lparr>self_source_texts = [''good film'', ''dull film''],
              self_class_labels = [''1'', ''0'']\<rparr>,
           2, [u0120 @ ''terrible'', u0120 @ ''great''],
           Some ''<mask> {clean_prompt} {sentence}''),
      [''./data/16-shot/agnews/16-100/train.tsv'']
      @ [''./data/16-shot/agnews/16-100/dev.tsv'']
      @ [''./data/16-shot/agnews/16-100/test.tsv''])"
    by (rule conjunct1 [OF mp [OF conjunct2 [OF t]]]) (intro conjI sample_load_split)
  then have "make_few_shot_classification_dataset sample_globals sample_fs sample_config =
     (Inr (\<lparr>self_source_texts = [''good film'', ''dull film''],
              self_class_labels = [''1'', ''0'']\<rparr>,
           \<lparr>self_source_texts = [''good film'', ''dull film''],
              self_class_labels = [''1'', ''0'']\<rparr>,
           \<lparr>self_source_texts = [''good film'', ''dull film''],
              self_class_labels = [''1'', ''0'']\<rparr>,
           2, [u0120 @ ''terrible'', u0120 @ ''great''],
           Some ''<mask> {clean_prompt} {sentence}''),
      [''./data/16-shot/agnews/16-100/train.tsv'',
       ''./data/16-shot/agnews/16-100/dev.tsv'',
       ''./data/16-shot/agnews/16-100/test.tsv''])"
    by (simp only: append.simps)
  then show ?thesis
    by (intro conjI sample_load_split)
qed

subsection \<open>The reward\<close>

text \<open>
  Claim C9. \<^verbatim>\<open>make_prompted_classification_reward\<close> applies the constructor to the five
  configuration fields \<^verbatim>\<open>task_lm\<close>, \<^verbatim>\<open>is_mask_lm\<close>, \<^verbatim>\<open>compute_zscore\<close>,
  \<^verbatim>\<open>incorrect_coeff\<close>, \<^verbatim>\<open>correct_coeff\<close> and then to its own three arguments, in this
  order; the result depends on no other field of the configuration.
\<close>

theorem make_reward_arguments:
  "make_prompted_classification_reward PromptedClassificationReward num_classes verbalizers
       template config
     = PromptedClassificationReward (cfg_task_lm config) (cfg_is_mask_lm config)
         (cfg_compute_zscore config) (cfg_incorrect_coeff config) (cfg_correct_coeff config)
         num_classes verbalizers template
   \<and> (cfg_task_lm config' = cfg_task_lm config
        \<and> cfg_is_mask_lm config' = cfg_is_mask_lm config
        \<and> cfg_compute_zscore config' = cfg_compute_zscore config
        \<and> cfg_incorrect_coeff config' = cfg_incorrect_coeff config
        \<and> cfg_correct_coeff config' = cfg_correct_coeff config
      \<longrightarrow> make_prompted_classification_reward PromptedClassificationReward num_classes
            verbalizers template config'
          = make_prompted_classification_reward PromptedClassificationReward num_classes
              verbalizers template config)"
  by (simp add: make_prompted_classification_reward_def)

theorem make_reward_arguments_witness:
  "make_prompted_classification_reward (\<lambda>a b c d e f g h. (a, b, c, d, e, f, g, h)) 2
       [''terrible'', ''great''] None sample_config
     = (''roberta-large'', None, True, 180, 200, 2, [''terrible'', ''great''], None)
   \<and> cfg_task_lm (sample_config\<lparr>cfg_dataset := ''yelp'', cfg_clean_prompt := Some ''x'',
                                  cfg_target_label := Some 1\<rparr>) = cfg_task_lm sample_config
   \<and> make_prompted_classification_reward (\<lambda>a b c d e f g h. (a, b, c, d, e, f, g, h)) 2
       [''terrible'', ''great''] None
       (sample_config\<lparr>cfg_dataset := ''yelp'', cfg_clean_prompt := Some ''x'',
                       cfg_target_label := Some 1\<rparr>)
     = (''roberta-large'', None, True, 180, 200, 2, [''terrible'', ''great''], None)"
  using make_reward_arguments [where PromptedClassificationReward
        = "\<lambda>a b c d e f g h. (a, b, c, d, e, f, g, h)"
      and num_classes = 2 and verbalizers = "[''terrible'', ''great'']" and template = None
      and config = sample_config
      and config' = "sample_config\<lparr>cfg_dataset := ''yelp'', cfg_clean_prompt := Some ''x'',
                                    cfg_target_label := Some 1\<rparr>"]
  by (simp add: sample_config_def)

subsection \<open>The dataset object\<close>

text \<open>
  Claim C10. The constructor of \<^verbatim>\<open>PromptedClassificationDataset\<close> raises
  \<^verbatim>\<open>AssertionError\<close> on lists of different lengths and succeeds otherwise; on the object
  built, \<^verbatim>\<open>__len__\<close> is the common length and \<^verbatim>\<open>__getitem__\<close> at an index from 0 up to
  the length, exclusive, pairs the text and the label at that index.
\<close>

theorem dataset_alignment:
  "(length source_texts \<noteq> length class_labels
      \<longrightarrow> PromptedClassificationDataset_init source_texts class_labels = Inl AssertionError)
   \<and> (length source_texts = length class_labels
      \<longrightarrow> (\<exists>self. PromptedClassificationDataset_init source_texts class_labels = Inr self))
   \<and> (PromptedClassificationDataset_init source_texts class_labels = Inr self
      \<longrightarrow> length source_texts = length class_labels
        \<and> PromptedClassificationDataset_len self = int (length source_texts)
        \<and> PromptedClassificationDataset_len self = int (length class_labels)
        \<and> (\<forall>i. 0 \<le> i \<and> i < PromptedClassificationDataset_len self
              \<longrightarrow> PromptedClassificationDataset_getitem self i
                    = Inr \<lparr>item_source_texts = source_texts ! nat i,
                           item_class_labels = class_labels ! nat i\<rparr>))"
proof (intro conjI impI)
  assume "length source_texts \<noteq> length class_labels"
  then show "PromptedClassificationDataset_init source_texts class_labels = Inl AssertionError"
    by (simp add: PromptedClassificationDataset_init_def)
next
  assume "length source_texts = length class_labels"
  then show "\<exists>self. PromptedClassificationDataset_init source_texts class_labels = Inr self"
    by (simp add: PromptedClassificationDataset_init_def)
next
  assume a: "PromptedClassificationDataset_init source_texts class_labels = Inr self"
  then have len: "length source_texts = length class_labels"
    and self: "self = \<lparr>self_source_texts = source_texts, self_class_labels = class_labels\<rparr>"
    by (auto simp: PromptedClassificationDataset_init_def split: if_splits)
  show "length source_texts = length class_labels" by (rule len)
  show "PromptedClassificationDataset_len self = int (length source_texts)"
    by (simp add: PromptedClassificationDataset_len_def self)
  show "PromptedClassificationDataset_len self = int (length class_labels)"
    by (simp add: PromptedClassificationDataset_len_def self len)
  show "\<forall>i. 0 \<le> i \<and> i < PromptedClassificationDataset_len self
              \<longrightarrow> PromptedClassificationDataset_getitem self i
                    = Inr \<lparr>item_source_texts = source_texts ! nat i,
                           item_class_labels = class_labels ! nat i\<rparr>"
    using len
    by (simp add: PromptedClassificationDataset_len_def PromptedClassificationDataset_getitem_def
          self list_getitem_in_range)
qed

theorem dataset_alignment_witness:
  "length [''good film''] \<noteq> length ([] :: int list)
   \<and> PromptedClassificationDataset_init [''good film''] ([] :: int list) = Inl AssertionError
   \<and> length [''good film'', ''dull film''] = length [1, 0 :: int]
   \<and> PromptedClassificationDataset_init [''good film'', ''dull film''] [1, 0 :: int]
       = Inr \<lparr>self_source_texts = [''good film'', ''dull film''], self_class_labels = [1, 0]\<rparr>
   \<and> PromptedClassificationDataset_len
        \<lparr>self_source_texts = [''good film'', ''dull film''], self_class_labels = [1, 0 :: int]\<rparr>
       = 2
   \<and> (0::int) \<le> 1 \<and> (1::int) < 2
   \<and> PromptedClassificationDataset_getitem
        \<lparr>self_source_texts = [''good film'', ''dull film''], self_class_labels = [1, 0 :: int]\<rparr>
        1
       = Inr \<lparr>item_source_texts = ''dull film'', item_class_labels = 0\<rparr>"
proof -
  have i: "PromptedClassificationDataset_init [''good film'', ''dull film''] [1, 0 :: int]
       = Inr \<lparr>self_source_texts = [''good film'', ''dull film''], self_class_labels = [1, 0]\<rparr>"
    by (simp add: PromptedClassificationDataset_init_def)
  from dataset_alignment [of "[''good film'']" "[] :: int list"]
  have "PromptedClassificationDataset_init [''good film''] ([] :: int list) = Inl AssertionError"
    by simp
  moreover from dataset_alignment [of "[''good film'', ''dull film'']" "[1, 0 :: int]"
      "\<lparr>self_source_texts = [''good film'', ''dull film''], self_class_labels = [1, 0]\<rparr>"] i
  have "PromptedClassificationDataset_len
          \<lparr>self_source_texts = [''good film'', ''dull film''], self_class_labels = [1, 0 :: int]\<rparr>
         = 2"
    and "\<forall>i. 0 \<le> i \<and> i < PromptedClassificationDataset_len
            \<lparr>self_source_texts = [''good film'', ''dull film''], self_class_labels = [1, 0 :: int]\<rparr>
          \<longrightarrow> PromptedClassificationDataset_getitem
            \<lparr>self_source_texts = [''good film'', ''dull film''], self_class_labels = [1, 0 :: int]\<rparr>
            i
           = Inr \<lparr>item_source_texts = [''good film'', ''dull film''] ! nat i,
                  item_class_labels = [1, 0 :: int] ! nat i\<rparr>"
    by simp_all
  moreover from this have "PromptedClassificationDataset_getitem
        \<lparr>self_source_texts = [''good film'', ''dull film''], self_class_labels = [1, 0 :: int]\<rparr>
        1
       = Inr \<lparr>item_source_texts = ''dull film'', item_class_labels = 0\<rparr>"
    by simp
  ultimately show ?thesis using i by simp
qed

end
